theory Spec2Isabelle
  imports Main
begin

section \<open>Values and errors\<close>

text \<open>
  The Python values that occur in a credential dict: \<open>None\<close>, a string, or a list of
  strings (the scopes).
\<close>

datatype pyval = PNone | PStr string | PList "string list"

text \<open>
  The exceptions of \<open>gcp_handler.py\<close>. \<open>TypeError\<close> is what a keyword call raises when a
  required parameter is missing; \<open>RemoteError m\<close> is an exception raised by the remote
  provider whose \<open>str(e)\<close> is \<open>m\<close>; \<open>Exception m\<close> is the plain \<open>Exception(m)\<close> that
  \<open>_read_table\<close> and \<open>_get_table_schema\<close> raise.
\<close>

datatype error = TypeError | RemoteError string | Exception string

section \<open>Rendering integers (f-string interpolation)\<close>

definition digit_char :: "nat \<Rightarrow> char" where
  "digit_char d =
     (if d = 0 then CHR ''0'' else if d = 1 then CHR ''1'' else if d = 2 then CHR ''2''
      else if d = 3 then CHR ''3'' else if d = 4 then CHR ''4'' else if d = 5 then CHR ''5''
      else if d = 6 then CHR ''6'' else if d = 7 then CHR ''7'' else if d = 8 then CHR ''8''
      else CHR ''9'')"

fun str_nat :: "nat \<Rightarrow> string" where
  "str_nat n = (if n < 10 then [digit_char n] else str_nat (n div 10) @ [digit_char (n mod 10)])"

declare str_nat.simps [simp del]

definition str_int :: "int \<Rightarrow> string" where
  "str_int i = (if i < 0 then CHR ''-'' # str_nat (nat (- i)) else str_nat (nat i))"

section \<open>Query construction of \<open>_read_table\<close>\<close>

text \<open>
  \<^verbatim>\<open>table_ref = f'{project_id}.{dataset_id}.{table_id}'\<close>
\<close>

definition table_ref :: "string \<Rightarrow> string \<Rightarrow> string \<Rightarrow> string" where
  "table_ref project_id dataset_id table_id = project_id @ ''.'' @ dataset_id @ ''.'' @ table_id"

text \<open>
  Python truthiness of the two optional arguments: \<open>None\<close> and the empty string are
  falsy for \<open>custom_query\<close>; \<open>None\<close> and \<open>0\<close> are falsy for \<open>limit\<close>.
\<close>

definition truthy_str :: "string option \<Rightarrow> bool" where
  "truthy_str s = (case s of None \<Rightarrow> False | Some q \<Rightarrow> q \<noteq> [])"

definition truthy_int :: "int option \<Rightarrow> bool" where
  "truthy_int l = (case l of None \<Rightarrow> False | Some n \<Rightarrow> n \<noteq> 0)"

text \<open>
  \<^verbatim>\<open>
  if custom_query:
      query = custom_query
  else:
      query = f'SELECT * FROM `{table_ref}`'
      if limit:
          query += f' LIMIT {limit}'
  \<close>
  The two \<open>None\<close> branches of the \<open>case\<close> expressions below are never reached: a
  truthy argument is present.
\<close>

definition default_query :: "string \<Rightarrow> string \<Rightarrow> string \<Rightarrow> string" where
  "default_query project_id dataset_id table_id =
     ''SELECT * FROM `'' @ table_ref project_id dataset_id table_id @ ''`''"

definition build_query ::
  "string \<Rightarrow> string \<Rightarrow> string \<Rightarrow> int option \<Rightarrow> string option \<Rightarrow> string" where
  "build_query project_id dataset_id table_id limit custom_query =
     (if truthy_str custom_query
      then (case custom_query of Some q \<Rightarrow> q | None \<Rightarrow> [])
      else if truthy_int limit
           then default_query project_id dataset_id table_id @ '' LIMIT '' @
                  (case limit of Some n \<Rightarrow> str_int n | None \<Rightarrow> ''None'')
           else default_query project_id dataset_id table_id)"

section \<open>Credentials in their two representations\<close>

text \<open>
  The dict form has the keys that \<open>_credentials_to_dict\<close> writes. A key may be absent
  from a dict, so the dict is a partial map.
\<close>

datatype field = Token | Refresh_token | Token_uri | Client_id | Client_secret | Scopes

type_synonym cred_dict = "field \<rightharpoonup> pyval"

text \<open>
  The class \<open>google.oauth2.credentials.Credentials\<close> is the google-auth library's;
  \<open>gcp_handler.py\<close> imports it and reads six attributes of it in
  \<open>_credentials_to_dict\<close>. The model is a record of these six. The constructor is called
  with the dict's entries as keyword arguments: \<open>token\<close> is its one required parameter
  (a call without it raises \<open>TypeError\<close>), every other parameter defaults to \<open>None\<close>,
  and each value is stored as given, with no check of one field against another.
\<close>

record Credentials =
  token :: pyval
  refresh_token :: pyval
  token_uri :: pyval
  client_id :: pyval
  client_secret :: pyval
  scopes :: pyval

definition kwarg :: "cred_dict \<Rightarrow> field \<Rightarrow> pyval" where
  "kwarg d f = (case d f of None \<Rightarrow> PNone | Some v \<Rightarrow> v)"

text \<open>
  \<^verbatim>\<open>return google.oauth2.credentials.Credentials(**credentials)\<close>
\<close>

definition dict_to_credentials :: "cred_dict \<Rightarrow> error + Credentials" where
  "dict_to_credentials d =
     (case d Token of
        None \<Rightarrow> Inl TypeError
      | Some t \<Rightarrow>
          Inr \<lparr>token = t,
               refresh_token = kwarg d Refresh_token,
               token_uri = kwarg d Token_uri,
               client_id = kwarg d Client_id,
               client_secret = kwarg d Client_secret,
               scopes = kwarg d Scopes\<rparr>)"

text \<open>
  \<^verbatim>\<open>
  return {'token': credentials.token, 'refresh_token': credentials.refresh_token,
          'token_uri': credentials.token_uri, 'client_id': credentials.client_id,
          'client_secret': credentials.client_secret, 'scopes': credentials.scopes}
  \<close>
\<close>

definition credentials_to_dict :: "Credentials \<Rightarrow> cred_dict" where
  "credentials_to_dict c =
     [Token \<mapsto> token c, Refresh_token \<mapsto> refresh_token c, Token_uri \<mapsto> token_uri c,
      Client_id \<mapsto> client_id c, Client_secret \<mapsto> client_secret c, Scopes \<mapsto> scopes c]"

text \<open>
  Every public method accepts either form:
  \<^verbatim>\<open>
  if isinstance(credentials, dict):
      credentials = self._dict_to_credentials(credentials)
  assert isinstance(credentials, google.oauth2.credentials.Credentials)
  \<close>
  The input type has the two forms only, so the assertion holds on both branches.
\<close>

datatype cred_input = Record cred_dict | Live Credentials

definition normalize :: "cred_input \<Rightarrow> error + Credentials" where
  "normalize ci = (case ci of Record d \<Rightarrow> dict_to_credentials d | Live c \<Rightarrow> Inr c)"

section \<open>The remote provider\<close>

text \<open>
  One constructor for each call the handler makes on the provider, with the credentials
  the client was built with. \<open>RunQuery c project location sql\<close> is \<open>client.query(sql)\<close>
  with its result read into a data frame, on a client built for \<open>project\<close> and
  \<open>location\<close>; \<open>GetTable c project location ref\<close> is \<open>client.get_table(ref)\<close> with the
  schema read from the answer. Building the client object sends nothing and is taken to
  succeed; it stands outside the \<open>try\<close> blocks.
\<close>

datatype request =
    ListProjects Credentials
  | ListDatasets Credentials string
  | ListTables Credentials string string
  | RunQuery Credentials string string string
  | GetTable Credentials string string string

text \<open>
  The provider is a parameter: it answers a request in a world \<open>'w\<close> of its own, with
  a payload or with the message of the exception it raises. The handler's side keeps the
  list of the requests that were sent.
\<close>

type_synonym ('v, 'w) remote = "request \<Rightarrow> 'w \<Rightarrow> (string + 'v) \<times> 'w"

record 'w provider =
  calls :: "request list"
  world :: 'w

definition call_remote ::
  "('v, 'w) remote \<Rightarrow> request \<Rightarrow> 'w provider \<Rightarrow> (string + 'v) \<times> 'w provider" where
  "call_remote remote rq p =
     (case remote rq (world p) of
        (r, w') \<Rightarrow> (r, \<lparr>calls = calls p @ [rq], world = w'\<rparr>))"

section \<open>The memoized inner functions\<close>

text \<open>
  \<open>_get_projects\<close>, \<open>_get_datasets\<close> and \<open>_get_tables\<close> have no handler of their own: an
  exception of the provider leaves them as it is.
\<close>

definition get_projects_inner ::
  "('v, 'w) remote \<Rightarrow> Credentials \<Rightarrow> 'w provider \<Rightarrow> (error + 'v) \<times> 'w provider" where
  "get_projects_inner remote credentials p =
     (case call_remote remote (ListProjects credentials) p of
        (Inl m, p') \<Rightarrow> (Inl (RemoteError m), p')
      | (Inr v, p') \<Rightarrow> (Inr v, p'))"

definition get_datasets_inner ::
  "('v, 'w) remote \<Rightarrow> Credentials \<Rightarrow> string \<Rightarrow> 'w provider \<Rightarrow> (error + 'v) \<times> 'w provider" where
  "get_datasets_inner remote credentials project_id p =
     (case call_remote remote (ListDatasets credentials project_id) p of
        (Inl m, p') \<Rightarrow> (Inl (RemoteError m), p')
      | (Inr v, p') \<Rightarrow> (Inr v, p'))"

definition get_tables_inner ::
  "('v, 'w) remote \<Rightarrow> Credentials \<Rightarrow> string \<Rightarrow> string \<Rightarrow> 'w provider
     \<Rightarrow> (error + 'v) \<times> 'w provider" where
  "get_tables_inner remote credentials project_id dataset_id p =
     (case call_remote remote (ListTables credentials project_id dataset_id) p of
        (Inl m, p') \<Rightarrow> (Inl (RemoteError m), p')
      | (Inr v, p') \<Rightarrow> (Inr v, p'))"

text \<open>
  \<^verbatim>\<open>
  try:
      table_ref = f'{project_id}.{dataset_id}.{table_id}'
      ... query = ...
      query_job = client.query(query)
      result = query_job.result()
      return pd.DataFrame(result.to_dataframe())
  except Exception as e:
      raise Exception(f'Error reading table {table_ref}: {str(e)}')
  \<close>
\<close>

definition read_table_inner ::
  "('v, 'w) remote \<Rightarrow> Credentials \<Rightarrow> string \<Rightarrow> string \<Rightarrow> string \<Rightarrow> string \<Rightarrow> int option
     \<Rightarrow> string option \<Rightarrow> 'w provider \<Rightarrow> (error + 'v) \<times> 'w provider" where
  "read_table_inner remote credentials project_id dataset_id table_id location limit custom_query p =
     (case call_remote remote
             (RunQuery credentials project_id location
                (build_query project_id dataset_id table_id limit custom_query)) p of
        (Inl m, p') \<Rightarrow>
          (Inl (Exception (''Error reading table '' @ table_ref project_id dataset_id table_id
                            @ '': '' @ m)), p')
      | (Inr v, p') \<Rightarrow> (Inr v, p'))"

text \<open>
  \<^verbatim>\<open>
  try:
      table_ref = f'{project_id}.{dataset_id}.{table_id}'
      table = client.get_table(table_ref)
      return [...]
  except Exception as e:
      raise Exception(f'Error getting table schema for {table_ref}: {str(e)}')
  \<close>
\<close>

definition get_table_schema_inner ::
  "('v, 'w) remote \<Rightarrow> Credentials \<Rightarrow> string \<Rightarrow> string \<Rightarrow> string \<Rightarrow> string
     \<Rightarrow> 'w provider \<Rightarrow> (error + 'v) \<times> 'w provider" where
  "get_table_schema_inner remote credentials project_id dataset_id table_id location p =
     (case call_remote remote
             (GetTable credentials project_id location
                (table_ref project_id dataset_id table_id)) p of
        (Inl m, p') \<Rightarrow>
          (Inl (Exception (''Error getting table schema for ''
                            @ table_ref project_id dataset_id table_id @ '': '' @ m)), p')
      | (Inr v, p') \<Rightarrow> (Inr v, p'))"

section \<open>The cache\<close>

text \<open>
  The handler's TTL:
  \<^verbatim>\<open>
  @property
  def cache_timeout(self) -> int:
      return 300 #5 minutes
  \<close>
\<close>

definition cache_timeout :: nat where
  "cache_timeout = 300"

text \<open>
  Modelled from the spec: the cache object is given to the handler's constructor and its
  \<open>memoize\<close> decorator is not part of \<open>gcp_handler.py\<close>. The key is the spec's CacheKey,
  "composite of {operationName: string, positionalArgs: ordered sequence of primitive
  values, credentialFingerprint: string}", where the positional arguments are strings,
  integers, or the sentinel of an absent optional argument. The fingerprint function is
  a parameter \<open>fp\<close> of the model.
\<close>

datatype arg = AStr string | AInt int | ANone

record 'f CacheKey =
  operationName :: string
  positionalArgs :: "arg list"
  credentialFingerprint :: 'f

definition opt_int :: "int option \<Rightarrow> arg" where
  "opt_int l = (case l of None \<Rightarrow> ANone | Some n \<Rightarrow> AInt n)"

definition opt_str :: "string option \<Rightarrow> arg" where
  "opt_str q = (case q of None \<Rightarrow> ANone | Some s \<Rightarrow> AStr s)"

text \<open>
  Modelled from the spec: the store behind the cache, a map from keys to entries
  \<open>(value, expiresAt)\<close>, with the time in seconds. An entry is read while
  \<open>now \<le> expiresAt\<close>.
\<close>

type_synonym ('f, 'v) store = "'f CacheKey \<rightharpoonup> ('v \<times> nat)"

definition lookup_fresh :: "('f, 'v) store \<Rightarrow> 'f CacheKey \<Rightarrow> nat \<Rightarrow> 'v option" where
  "lookup_fresh st key now =
     (case st key of
        None \<Rightarrow> None
      | Some (v, expiresAt) \<Rightarrow> if now \<le> expiresAt then Some v else None)"

record ('f, 'v, 'w) hstate =
  store :: "('f, 'v) store"
  provider :: "'w provider"

text \<open>
  Modelled from the spec: \<open>MemoizingInvoker.invoke(key, ttl, producer)\<close>, the behaviour of
  a function decorated with \<open>cache.memoize(timeout=ttl)\<close>. "Look up key in the backing
  store. If present and now <= expiresAt: return cached value. Else: call producer(). If
  it fails, the failure propagates to the caller and nothing is cached. If it succeeds,
  store {key, value, expiresAt: now + ttl}, return value."
\<close>

definition invoke ::
  "'f CacheKey \<Rightarrow> nat \<Rightarrow> nat \<Rightarrow> ('w provider \<Rightarrow> (error + 'v) \<times> 'w provider)
     \<Rightarrow> ('f, 'v, 'w) hstate \<Rightarrow> (error + 'v) \<times> ('f, 'v, 'w) hstate" where
  "invoke key ttl now producer s =
     (case lookup_fresh (store s) key now of
        Some v \<Rightarrow> (Inr v, s)
      | None \<Rightarrow>
          (case producer (provider s) of
             (Inl e, p') \<Rightarrow> (Inl e, s\<lparr>provider := p'\<rparr>)
           | (Inr v, p') \<Rightarrow>
               (Inr v, \<lparr>store = (store s)(key \<mapsto> (v, now + ttl)), provider = p'\<rparr>)))"

section \<open>The public methods of \<open>GCPDataHandler\<close>\<close>

text \<open>
  Each method normalizes the credentials and calls its memoized inner function with the
  live credentials and its own arguments, in the order of its signature. A failure of
  the normalization is raised before the inner function is called.
\<close>

definition get_projects ::
  "(Credentials \<Rightarrow> 'f) \<Rightarrow> ('v, 'w) remote \<Rightarrow> nat \<Rightarrow> cred_input
     \<Rightarrow> ('f, 'v, 'w) hstate \<Rightarrow> (error + 'v) \<times> ('f, 'v, 'w) hstate" where
  "get_projects fp remote now credentials s =
     (case normalize credentials of
        Inl e \<Rightarrow> (Inl e, s)
      | Inr c \<Rightarrow>
          invoke \<lparr>operationName = ''_get_projects'', positionalArgs = [],
                  credentialFingerprint = fp c\<rparr>
            cache_timeout now (get_projects_inner remote c) s)"

definition get_datasets ::
  "(Credentials \<Rightarrow> 'f) \<Rightarrow> ('v, 'w) remote \<Rightarrow> nat \<Rightarrow> cred_input \<Rightarrow> string
     \<Rightarrow> ('f, 'v, 'w) hstate \<Rightarrow> (error + 'v) \<times> ('f, 'v, 'w) hstate" where
  "get_datasets fp remote now credentials project_id s =
     (case normalize credentials of
        Inl e \<Rightarrow> (Inl e, s)
      | Inr c \<Rightarrow>
          invoke \<lparr>operationName = ''_get_datasets'', positionalArgs = [AStr project_id],
                  credentialFingerprint = fp c\<rparr>
            cache_timeout now (get_datasets_inner remote c project_id) s)"

definition get_tables ::
  "(Credentials \<Rightarrow> 'f) \<Rightarrow> ('v, 'w) remote \<Rightarrow> nat \<Rightarrow> cred_input \<Rightarrow> string \<Rightarrow> string
     \<Rightarrow> ('f, 'v, 'w) hstate \<Rightarrow> (error + 'v) \<times> ('f, 'v, 'w) hstate" where
  "get_tables fp remote now credentials project_id dataset_id s =
     (case normalize credentials of
        Inl e \<Rightarrow> (Inl e, s)
      | Inr c \<Rightarrow>
          invoke \<lparr>operationName = ''_get_tables'',
                  positionalArgs = [AStr project_id, AStr dataset_id],
                  credentialFingerprint = fp c\<rparr>
            cache_timeout now (get_tables_inner remote c project_id dataset_id) s)"

definition read_table ::
  "(Credentials \<Rightarrow> 'f) \<Rightarrow> ('v, 'w) remote \<Rightarrow> nat \<Rightarrow> cred_input \<Rightarrow> string \<Rightarrow> string \<Rightarrow> string
     \<Rightarrow> string \<Rightarrow> int option \<Rightarrow> string option
     \<Rightarrow> ('f, 'v, 'w) hstate \<Rightarrow> (error + 'v) \<times> ('f, 'v, 'w) hstate" where
  "read_table fp remote now credentials project_id dataset_id table_id location limit custom_query s =
     (case normalize credentials of
        Inl e \<Rightarrow> (Inl e, s)
      | Inr c \<Rightarrow>
          invoke \<lparr>operationName = ''_read_table'',
                  positionalArgs = [AStr project_id, AStr dataset_id, AStr table_id,
                                    AStr location, opt_int limit, opt_str custom_query],
                  credentialFingerprint = fp c\<rparr>
            cache_timeout now
            (read_table_inner remote c project_id dataset_id table_id location limit custom_query)
            s)"

definition get_table_schema ::
  "(Credentials \<Rightarrow> 'f) \<Rightarrow> ('v, 'w) remote \<Rightarrow> nat \<Rightarrow> cred_input \<Rightarrow> string \<Rightarrow> string \<Rightarrow> string
     \<Rightarrow> string \<Rightarrow> ('f, 'v, 'w) hstate \<Rightarrow> (error + 'v) \<times> ('f, 'v, 'w) hstate" where
  "get_table_schema fp remote now credentials project_id dataset_id table_id location s =
     (case normalize credentials of
        Inl e \<Rightarrow> (Inl e, s)
      | Inr c \<Rightarrow>
          invoke \<lparr>operationName = ''_get_table_schema'',
                  positionalArgs = [AStr project_id, AStr dataset_id, AStr table_id,
                                    AStr location],
                  credentialFingerprint = fp c\<rparr>
            cache_timeout now
            (get_table_schema_inner remote c project_id dataset_id table_id location) s)"

subsection \<open>The five operations as one\<close>

datatype operation =
    GetProjects
  | GetDatasets string
  | GetTables string string
  | ReadTable string string string string "int option" "string option"
  | GetTableSchema string string string string

fun handle ::
  "(Credentials \<Rightarrow> 'f) \<Rightarrow> ('v, 'w) remote \<Rightarrow> nat \<Rightarrow> cred_input \<Rightarrow> operation
     \<Rightarrow> ('f, 'v, 'w) hstate \<Rightarrow> (error + 'v) \<times> ('f, 'v, 'w) hstate" where
  "handle fp remote now ci GetProjects s = get_projects fp remote now ci s"
| "handle fp remote now ci (GetDatasets p) s = get_datasets fp remote now ci p s"
| "handle fp remote now ci (GetTables p d) s = get_tables fp remote now ci p d s"
| "handle fp remote now ci (ReadTable p d t loc limit cq) s =
     read_table fp remote now ci p d t loc limit cq s"
| "handle fp remote now ci (GetTableSchema p d t loc) s =
     get_table_schema fp remote now ci p d t loc s"

text \<open>The key and the inner function of each operation, as the methods above pass them.\<close>

fun op_key :: "(Credentials \<Rightarrow> 'f) \<Rightarrow> Credentials \<Rightarrow> operation \<Rightarrow> 'f CacheKey" where
  "op_key fp c GetProjects =
     \<lparr>operationName = ''_get_projects'', positionalArgs = [], credentialFingerprint = fp c\<rparr>"
| "op_key fp c (GetDatasets p) =
     \<lparr>operationName = ''_get_datasets'', positionalArgs = [AStr p],
      credentialFingerprint = fp c\<rparr>"
| "op_key fp c (GetTables p d) =
     \<lparr>operationName = ''_get_tables'', positionalArgs = [AStr p, AStr d],
      credentialFingerprint = fp c\<rparr>"
| "op_key fp c (ReadTable p d t loc limit cq) =
     \<lparr>operationName = ''_read_table'',
      positionalArgs = [AStr p, AStr d, AStr t, AStr loc, opt_int limit, opt_str cq],
      credentialFingerprint = fp c\<rparr>"
| "op_key fp c (GetTableSchema p d t loc) =
     \<lparr>operationName = ''_get_table_schema'',
      positionalArgs = [AStr p, AStr d, AStr t, AStr loc],
      credentialFingerprint = fp c\<rparr>"

fun op_producer ::
  "('v, 'w) remote \<Rightarrow> Credentials \<Rightarrow> operation \<Rightarrow> 'w provider \<Rightarrow> (error + 'v) \<times> 'w provider" where
  "op_producer remote c GetProjects = get_projects_inner remote c"
| "op_producer remote c (GetDatasets p) = get_datasets_inner remote c p"
| "op_producer remote c (GetTables p d) = get_tables_inner remote c p d"
| "op_producer remote c (ReadTable p d t loc limit cq) =
     read_table_inner remote c p d t loc limit cq"
| "op_producer remote c (GetTableSchema p d t loc) =
     get_table_schema_inner remote c p d t loc"

text \<open>A well-formed credential record has all six fields.\<close>

definition well_formed :: "cred_dict \<Rightarrow> bool" where
  "well_formed r =
     (r Token \<noteq> None \<and> r Refresh_token \<noteq> None \<and> r Token_uri \<noteq> None \<and>
      r Client_id \<noteq> None \<and> r Client_secret \<noteq> None \<and> r Scopes \<noteq> None)"

text \<open>The request that the inner function of an operation sends to the provider.\<close>

fun op_request :: "Credentials \<Rightarrow> operation \<Rightarrow> request" where
  "op_request c GetProjects = ListProjects c"
| "op_request c (GetDatasets p) = ListDatasets c p"
| "op_request c (GetTables p d) = ListTables c p d"
| "op_request c (ReadTable p d t loc limit cq) = RunQuery c p loc (build_query p d t limit cq)"
| "op_request c (GetTableSchema p d t loc) = GetTable c p loc (table_ref p d t)"

section \<open>Concrete inputs\<close>

definition example_record :: cred_dict where
  "example_record =
     [Token \<mapsto> PStr ''ya29.token'', Refresh_token \<mapsto> PStr ''1//refresh'',
      Token_uri \<mapsto> PStr ''https://oauth2.googleapis.com/token'',
      Client_id \<mapsto> PStr ''client-id'', Client_secret \<mapsto> PStr ''client-secret'',
      Scopes \<mapsto> PList [''https://www.googleapis.com/auth/bigquery'']]"

definition example_live :: Credentials where
  "example_live =
     \<lparr>token = PStr ''ya29.token'', refresh_token = PStr ''1//refresh'',
      token_uri = PStr ''https://oauth2.googleapis.com/token'',
      client_id = PStr ''client-id'', client_secret = PStr ''client-secret'',
      scopes = PList [''https://www.googleapis.com/auth/bigquery'']\<rparr>"

definition record_without_token_uri :: cred_dict where
  "record_without_token_uri = [Token \<mapsto> PStr ''ya29.token'', Refresh_token \<mapsto> PStr ''1//refresh'']"

definition live_without_token_uri :: Credentials where
  "live_without_token_uri =
     \<lparr>token = PStr ''ya29.token'', refresh_token = PStr ''1//refresh'',
      token_uri = PNone, client_id = PNone, client_secret = PNone, scopes = PNone\<rparr>"

definition ok_remote :: "(nat, unit) remote" where
  "ok_remote rq w = (Inr 7, w)"

definition failing_remote :: "(nat, unit) remote" where
  "failing_remote rq w = (Inl ''boom'', w)"

text \<open>A fingerprint function for the concrete inputs: the credentials themselves.\<close>

definition whole_credentials :: "Credentials \<Rightarrow> Credentials" where
  "whole_credentials c = c"

definition empty_state :: "(Credentials, nat, unit) hstate" where
  "empty_state = \<lparr>store = Map.empty, provider = \<lparr>calls = [], world = ()\<rparr>\<rparr>"

section \<open>Rendering and query lemmas\<close>

lemma str_int_10: "str_int 10 = ''10''"
  by (simp add: str_int_def str_nat.simps digit_char_def)

lemma str_int_minus_5: "str_int (- 5) = ''-5''"
  by (simp add: str_int_def str_nat.simps digit_char_def)

section \<open>Lemmas on the handler and the cache\<close>

lemma handle_invoke:
  "handle fp remote now ci op s =
     (case normalize ci of
        Inl e \<Rightarrow> (Inl e, s)
      | Inr c \<Rightarrow> invoke (op_key fp c op) cache_timeout now (op_producer remote c op) s)"
  by (cases op; cases "normalize ci")
     (simp_all add: get_projects_def get_datasets_def get_tables_def read_table_def
        get_table_schema_def)

lemma call_remote_calls: "calls (snd (call_remote remote rq p)) = calls p @ [rq]"
  by (simp add: call_remote_def split: prod.splits)

lemma call_remote_fst: "fst (call_remote remote rq p) = fst (remote rq (world p))"
  by (simp add: call_remote_def split: prod.splits)

lemma op_producer_calls:
  "calls (snd (op_producer remote c op p)) = calls p @ [op_request c op]"
proof (cases op)
  case GetProjects
  then show ?thesis
    using call_remote_calls [of remote "ListProjects c" p]
    by (auto simp: get_projects_inner_def split: prod.splits sum.splits)
next
  case (GetDatasets x)
  then show ?thesis
    using call_remote_calls [of remote "ListDatasets c x" p]
    by (auto simp: get_datasets_inner_def split: prod.splits sum.splits)
next
  case (GetTables x y)
  then show ?thesis
    using call_remote_calls [of remote "ListTables c x y" p]
    by (auto simp: get_tables_inner_def split: prod.splits sum.splits)
next
  case (ReadTable x d t loc limit cq)
  then show ?thesis
    using call_remote_calls [of remote "RunQuery c x loc (build_query x d t limit cq)" p]
    by (auto simp: read_table_inner_def split: prod.splits sum.splits)
next
  case (GetTableSchema x d t loc)
  then show ?thesis
    using call_remote_calls [of remote "GetTable c x loc (table_ref x d t)" p]
    by (auto simp: get_table_schema_inner_def split: prod.splits sum.splits)
qed

lemma lookup_fresh_later:
  "lookup_fresh st key now = None \<Longrightarrow> now \<le> now2 \<Longrightarrow> lookup_fresh st key now2 = None"
  by (auto simp: lookup_fresh_def split: option.splits if_splits)

lemma invoke_hit:
  "lookup_fresh (store s) key now = Some v \<Longrightarrow> invoke key ttl now producer s = (Inr v, s)"
  by (simp add: invoke_def)

lemma invoke_miss_fail:
  "lookup_fresh (store s) key now = None \<Longrightarrow> producer (provider s) = (Inl e, p') \<Longrightarrow>
   invoke key ttl now producer s = (Inl e, s\<lparr>provider := p'\<rparr>)"
  by (simp add: invoke_def)

lemma invoke_miss_ok:
  "lookup_fresh (store s) key now = None \<Longrightarrow> producer (provider s) = (Inr v, p') \<Longrightarrow>
   invoke key ttl now producer s =
     (Inr v, \<lparr>store = (store s)(key \<mapsto> (v, now + ttl)), provider = p'\<rparr>)"
  by (simp add: invoke_def)

lemma invoke_miss_fst:
  "lookup_fresh (store s) key now = None \<Longrightarrow>
   fst (invoke key ttl now producer s) = fst (producer (provider s))"
  by (auto simp: invoke_def split: prod.splits sum.splits)

lemma invoke_miss_provider:
  "lookup_fresh (store s) key now = None \<Longrightarrow>
   provider (snd (invoke key ttl now producer s)) = snd (producer (provider s))"
  by (auto simp: invoke_def split: prod.splits sum.splits)

lemma read_table_inner_calls:
  "calls (snd (read_table_inner remote c p d t loc limit cq pr)) =
     calls pr @ [RunQuery c p loc (build_query p d t limit cq)]"
  using op_producer_calls [of remote c "ReadTable p d t loc limit cq" pr] by simp

section \<open>The credential round trip\<close>

text \<open>
  C3: for every well-formed credential record \<open>r\<close> (a dict with the six fields token,
  refresh_token, token_uri, client_id, client_secret, scopes), \<open>_dict_to_credentials\<close>
  succeeds on \<open>r\<close> and \<open>_credentials_to_dict\<close> of the result is a dict equal to \<open>r\<close>.
\<close>

theorem credential_round_trip:
  assumes "well_formed r"
  shows "\<exists>live. dict_to_credentials r = Inr live \<and> credentials_to_dict live = r"
proof -
  from assms obtain t where t: "r Token = Some t"
    by (auto simp: well_formed_def)
  let ?live = "\<lparr>token = t, refresh_token = kwarg r Refresh_token,
                 token_uri = kwarg r Token_uri, client_id = kwarg r Client_id,
                 client_secret = kwarg r Client_secret, scopes = kwarg r Scopes\<rparr>"
  have "credentials_to_dict ?live f = r f" for f
    using assms t by (cases f) (auto simp: credentials_to_dict_def kwarg_def well_formed_def)
  then have "credentials_to_dict ?live = r"
    by (rule ext)
  moreover have "dict_to_credentials r = Inr ?live"
    using t by (simp add: dict_to_credentials_def)
  ultimately show ?thesis
    by simp
qed

theorem credential_round_trip_witness:
  "well_formed example_record \<and> dict_to_credentials example_record = Inr example_live
   \<and> credentials_to_dict example_live = example_record"
proof -
  have wf: "well_formed example_record"
    by (simp add: well_formed_def example_record_def)
  have live: "dict_to_credentials example_record = Inr example_live"
    by (simp add: dict_to_credentials_def example_record_def example_live_def kwarg_def)
  from credential_round_trip [OF wf] live wf show ?thesis
    by auto
qed

section \<open>The query that \<open>_read_table\<close> sends\<close>

text \<open>
  The claim C5 as it is written, "whenever \<open>custom_query\<close> is supplied it is the query
  that is sent", fails for the supplied string \<open>""\<close>: the empty string is falsy, and the
  default query with its limit is sent in its place.
\<close>

theorem custom_query_empty_counterexample:
  "build_query ''p'' ''d'' ''t'' (Some 10) (Some '''') = ''SELECT * FROM `p.d.t` LIMIT 10''
   \<and> calls (snd (read_table_inner ok_remote example_live ''p'' ''d'' ''t'' ''US'' (Some 10)
                   (Some '''') \<lparr>calls = [], world = ()\<rparr>))
       \<noteq> [RunQuery example_live ''p'' ''US'' '''']"
  by (simp add: read_table_inner_calls build_query_def truthy_str_def truthy_int_def
        default_query_def table_ref_def str_int_10)

text \<open>
  C5 (amended): for every call of \<open>_read_table\<close> with a non-empty \<open>custom_query\<close>, the
  query sent to the provider is that string, verbatim, whatever the \<open>limit\<close> argument is.
\<close>

theorem custom_query_verbatim:
  assumes "q \<noteq> []"
  shows "build_query p d t limit (Some q) = q
         \<and> calls (snd (read_table_inner remote c p d t loc limit (Some q) pr)) =
             calls pr @ [RunQuery c p loc q]"
  using assms by (simp add: read_table_inner_calls build_query_def truthy_str_def)

theorem custom_query_verbatim_witness:
  "''SELECT 1'' \<noteq> [] \<and> build_query ''p'' ''d'' ''t'' (Some 10) (Some ''SELECT 1'') = ''SELECT 1''
   \<and> calls (snd (read_table_inner ok_remote example_live ''p'' ''d'' ''t'' ''US'' (Some 10)
                   (Some ''SELECT 1'') \<lparr>calls = [], world = ()\<rparr>))
       = [RunQuery example_live ''p'' ''US'' ''SELECT 1'']"
proof -
  have ne: "''SELECT 1'' \<noteq> []" by simp
  from custom_query_verbatim [OF ne, of "''p''" "''d''" "''t''" "Some 10" ok_remote example_live
      "''US''" "\<lparr>calls = [], world = ()\<rparr>"] ne
  show ?thesis by simp
qed

text \<open>
  The claim C6 as it is written, "a negative limit yields no LIMIT clause", fails:
  \<open>if limit:\<close> holds for every non-zero integer, so \<open>limit=-5\<close> appends \<open>LIMIT -5\<close>.
\<close>

theorem negative_limit_counterexample:
  "build_query ''p'' ''d'' ''t'' (Some (- 5)) None = ''SELECT * FROM `p.d.t` LIMIT -5''"
  by (simp add: build_query_def truthy_str_def truthy_int_def default_query_def table_ref_def
        str_int_minus_5)

text \<open>
  C6 (amended): for every call of \<open>_read_table\<close> with no \<open>custom_query\<close>, the query sent
  is \<open>SELECT * FROM `project_id.dataset_id.table_id`\<close>, with \<open>LIMIT n\<close> appended exactly
  when the limit is present and not zero: an absent limit and the limit \<open>0\<close> give no
  LIMIT clause, and every other limit \<open>n\<close> gives \<open>LIMIT n\<close>.
\<close>

theorem default_query_limit:
  "build_query p d t None None = ''SELECT * FROM `'' @ p @ ''.'' @ d @ ''.'' @ t @ ''`''
   \<and> build_query p d t (Some 0) None = ''SELECT * FROM `'' @ p @ ''.'' @ d @ ''.'' @ t @ ''`''
   \<and> (n \<noteq> 0 \<longrightarrow>
        build_query p d t (Some n) None =
          ''SELECT * FROM `'' @ p @ ''.'' @ d @ ''.'' @ t @ ''`'' @ '' LIMIT '' @ str_int n)
   \<and> calls (snd (read_table_inner remote c p d t loc limit None pr)) =
       calls pr @ [RunQuery c p loc (build_query p d t limit None)]"
  by (simp add: read_table_inner_calls build_query_def truthy_str_def truthy_int_def
        default_query_def table_ref_def)

theorem default_query_limit_witness:
  "(10::int) \<noteq> 0
   \<and> build_query ''p'' ''d'' ''t'' (Some 10) None = ''SELECT * FROM `p.d.t` LIMIT 10''"
  using default_query_limit [where p = "''p''" and d = "''d''" and t = "''t''" and n = 10
      and remote = ok_remote and c = example_live and loc = "''US''" and limit = "Some 10"
      and pr = "\<lparr>calls = [], world = ()\<rparr>"]
  by (simp add: str_int_10)

text \<open>
  C10: for every call of \<open>_read_table\<close> whose \<open>custom_query\<close> is the empty string, the
  empty string is treated as absent. The query sent is never the empty string: it is the
  default \<open>SELECT * FROM `project_id.dataset_id.table_id`\<close>, alone when the limit is absent
  or \<open>0\<close> and followed by \<open>LIMIT n\<close> for every other limit \<open>n\<close>, which is the query and
  the call of \<open>custom_query=None\<close>.
\<close>

theorem empty_custom_query_is_absent:
  "build_query p d t None (Some '''') = ''SELECT * FROM `'' @ p @ ''.'' @ d @ ''.'' @ t @ ''`''
   \<and> build_query p d t (Some 0) (Some '''') = ''SELECT * FROM `'' @ p @ ''.'' @ d @ ''.'' @ t @ ''`''
   \<and> (n \<noteq> 0 \<longrightarrow>
        build_query p d t (Some n) (Some '''') =
          ''SELECT * FROM `'' @ p @ ''.'' @ d @ ''.'' @ t @ ''`'' @ '' LIMIT '' @ str_int n)
   \<and> build_query p d t limit (Some '''') \<noteq> ''''
   \<and> build_query p d t limit (Some '''') = build_query p d t limit None
   \<and> calls (snd (read_table_inner remote c p d t loc limit (Some '''') pr)) =
       calls pr @ [RunQuery c p loc (build_query p d t limit (Some ''''))]
   \<and> read_table_inner remote c p d t loc limit (Some '''') pr =
       read_table_inner remote c p d t loc limit None pr"
proof -
  have q: "build_query p d t l (Some '''') = build_query p d t l None" for l
    by (simp add: build_query_def truthy_str_def)
  have "read_table_inner remote c p d t loc limit (Some '''') pr =
          read_table_inner remote c p d t loc limit None pr"
    by (simp add: read_table_inner_def q)
  moreover have "build_query p d t limit (Some '''') \<noteq> ''''"
    by (simp add: build_query_def truthy_str_def default_query_def)
  moreover have "build_query p d t None (Some '''')
                   = ''SELECT * FROM `'' @ p @ ''.'' @ d @ ''.'' @ t @ ''`''"
    by (simp add: build_query_def truthy_str_def truthy_int_def default_query_def table_ref_def)
  moreover have "build_query p d t (Some 0) (Some '''')
                   = ''SELECT * FROM `'' @ p @ ''.'' @ d @ ''.'' @ t @ ''`''"
    by (simp add: build_query_def truthy_str_def truthy_int_def default_query_def table_ref_def)
  moreover have "n \<noteq> 0 \<longrightarrow>
        build_query p d t (Some n) (Some '''') =
          ''SELECT * FROM `'' @ p @ ''.'' @ d @ ''.'' @ t @ ''`'' @ '' LIMIT '' @ str_int n"
    by (simp add: build_query_def truthy_str_def truthy_int_def default_query_def table_ref_def)
  ultimately show ?thesis
    using q [of limit] read_table_inner_calls [of remote c p d t loc limit "Some ''''" pr]
    by simp
qed

theorem empty_custom_query_is_absent_witness:
  "(10::int) \<noteq> 0
   \<and> build_query ''p'' ''d'' ''t'' (Some 10) (Some '''') = ''SELECT * FROM `p.d.t` LIMIT 10''
   \<and> calls (snd (read_table_inner ok_remote example_live ''p'' ''d'' ''t'' ''US'' (Some 10)
                   (Some '''') \<lparr>calls = [], world = ()\<rparr>))
       = [RunQuery example_live ''p'' ''US'' ''SELECT * FROM `p.d.t` LIMIT 10'']"
proof -
  note th = empty_custom_query_is_absent [where p = "''p''" and d = "''d''" and t = "''t''"
      and n = 10 and remote = ok_remote and c = example_live and loc = "''US''"
      and limit = "Some 10" and pr = "\<lparr>calls = [], world = ()\<rparr>"]
  have a: "build_query ''p'' ''d'' ''t'' (Some 10) (Some '''') = ''SELECT * FROM `p.d.t` LIMIT 10''"
    using th by (simp add: str_int_10)
  have b: "calls (snd (read_table_inner ok_remote example_live ''p'' ''d'' ''t'' ''US'' (Some 10)
                   (Some '''') \<lparr>calls = [], world = ()\<rparr>))
           = calls \<lparr>calls = [], world = ()\<rparr>
               @ [RunQuery example_live ''p'' ''US''
                    (build_query ''p'' ''d'' ''t'' (Some 10) (Some ''''))]"
    using th by blast
  show ?thesis
    using a b by simp
qed

section \<open>Lemmas on the concrete inputs\<close>

lemma example_record_live: "dict_to_credentials example_record = Inr example_live"
  by (simp add: dict_to_credentials_def example_record_def example_live_def kwarg_def)

lemma record_without_token_uri_live:
  "dict_to_credentials record_without_token_uri = Inr live_without_token_uri"
  by (simp add: dict_to_credentials_def record_without_token_uri_def live_without_token_uri_def
        kwarg_def)

lemma empty_state_miss: "lookup_fresh (store empty_state) key now = None"
  by (simp add: empty_state_def lookup_fresh_def)

section \<open>Credential records without a token endpoint\<close>

text \<open>
  The claim C4 as it is written, "a record that lacks \<open>token_uri\<close> and has a
  \<open>refresh_token\<close> fails before any remote call", fails: the handler checks no field
  against another, the record becomes live credentials with \<open>token_uri = None\<close>, and on
  an empty cache the request is sent.
\<close>

theorem missing_token_uri_counterexample:
  "record_without_token_uri Token_uri = None
   \<and> record_without_token_uri Refresh_token = Some (PStr ''1//refresh'')
   \<and> fst (handle whole_credentials ok_remote 0 (Record record_without_token_uri) GetProjects
            empty_state) = Inr 7
   \<and> calls (provider (snd (handle whole_credentials ok_remote 0 (Record record_without_token_uri)
               GetProjects empty_state)))
       = [ListProjects live_without_token_uri]"
  by (simp add: record_without_token_uri_def live_without_token_uri_def get_projects_def
        normalize_def dict_to_credentials_def kwarg_def invoke_def lookup_fresh_def
        empty_state_def get_projects_inner_def call_remote_def ok_remote_def)

text \<open>
  C4 (amended): for every operation, a credential record that lacks \<open>token_uri\<close> and has a
  \<open>refresh_token\<close> and a string \<open>token\<close> is not rejected: it becomes live credentials
  with that token, that refresh token and \<open>token_uri = None\<close>, and on a cache miss the
  operation sends its request to the provider and returns what its inner function
  returns. A record, with \<open>token_uri\<close> or without, is rejected before the memoized inner
  function is called exactly when it has no \<open>token\<close> entry: then the call ends with the
  \<open>TypeError\<close> of the constructor call and the state unchanged, and otherwise the
  operation is the memoized call of its inner function on the live credentials.
\<close>

theorem credential_record_acceptance:
  "(r Token = None \<longrightarrow> handle fp remote now (Record r) op s = (Inl TypeError, s))
   \<and> (r Token \<noteq> None \<longrightarrow>
        (\<exists>live. dict_to_credentials r = Inr live
           \<and> handle fp remote now (Record r) op s
               = invoke (op_key fp live op) cache_timeout now (op_producer remote live op) s))
   \<and> (r Token = Some (PStr tk) \<longrightarrow> r Token_uri = None \<longrightarrow> r Refresh_token = Some rt \<longrightarrow>
        (\<exists>live. dict_to_credentials r = Inr live
           \<and> token live = PStr tk \<and> token_uri live = PNone \<and> refresh_token live = rt
           \<and> (lookup_fresh (store s) (op_key fp live op) now = None \<longrightarrow>
                calls (provider (snd (handle fp remote now (Record r) op s)))
                  = calls (provider s) @ [op_request live op]
                \<and> fst (handle fp remote now (Record r) op s)
                  = fst (op_producer remote live op (provider s)))))"
proof -
  let ?live = "\<lambda>t. \<lparr>token = t, refresh_token = kwarg r Refresh_token,
                     token_uri = kwarg r Token_uri, client_id = kwarg r Client_id,
                     client_secret = kwarg r Client_secret, scopes = kwarg r Scopes\<rparr>"
  have live: "dict_to_credentials r = Inr (?live t)" if "r Token = Some t" for t
    using that by (simp add: dict_to_credentials_def)
  have h: "handle fp remote now (Record r) op s
             = invoke (op_key fp (?live t) op) cache_timeout now
                 (op_producer remote (?live t) op) s"
    if "r Token = Some t" for t
    using live [OF that] by (simp add: handle_invoke normalize_def)
  have none: "r Token = None \<longrightarrow> handle fp remote now (Record r) op s = (Inl TypeError, s)"
    by (simp add: handle_invoke normalize_def dict_to_credentials_def)
  have some: "r Token \<noteq> None \<longrightarrow>
        (\<exists>live. dict_to_credentials r = Inr live
           \<and> handle fp remote now (Record r) op s
               = invoke (op_key fp live op) cache_timeout now (op_producer remote live op) s)"
  proof
    assume "r Token \<noteq> None"
    then obtain t where t: "r Token = Some t"
      by auto
    show "\<exists>live. dict_to_credentials r = Inr live
           \<and> handle fp remote now (Record r) op s
               = invoke (op_key fp live op) cache_timeout now (op_producer remote live op) s"
      using live [OF t] h [OF t] by blast
  qed
  have str: "r Token = Some (PStr tk) \<longrightarrow> r Token_uri = None \<longrightarrow> r Refresh_token = Some rt \<longrightarrow>
        (\<exists>live. dict_to_credentials r = Inr live
           \<and> token live = PStr tk \<and> token_uri live = PNone \<and> refresh_token live = rt
           \<and> (lookup_fresh (store s) (op_key fp live op) now = None \<longrightarrow>
                calls (provider (snd (handle fp remote now (Record r) op s)))
                  = calls (provider s) @ [op_request live op]
                \<and> fst (handle fp remote now (Record r) op s)
                  = fst (op_producer remote live op (provider s))))"
  proof (intro impI)
    assume t: "r Token = Some (PStr tk)" and uri: "r Token_uri = None"
      and rt: "r Refresh_token = Some rt"
    have fields: "token (?live (PStr tk)) = PStr tk \<and> token_uri (?live (PStr tk)) = PNone
                  \<and> refresh_token (?live (PStr tk)) = rt"
      using uri rt by (simp add: kwarg_def)
    have miss: "lookup_fresh (store s) (op_key fp (?live (PStr tk)) op) now = None \<longrightarrow>
                calls (provider (snd (handle fp remote now (Record r) op s)))
                  = calls (provider s) @ [op_request (?live (PStr tk)) op]
                \<and> fst (handle fp remote now (Record r) op s)
                  = fst (op_producer remote (?live (PStr tk)) op (provider s))"
      using h [OF t] by (simp add: invoke_miss_provider invoke_miss_fst op_producer_calls)
    show "\<exists>live. dict_to_credentials r = Inr live
           \<and> token live = PStr tk \<and> token_uri live = PNone \<and> refresh_token live = rt
           \<and> (lookup_fresh (store s) (op_key fp live op) now = None \<longrightarrow>
                calls (provider (snd (handle fp remote now (Record r) op s)))
                  = calls (provider s) @ [op_request live op]
                \<and> fst (handle fp remote now (Record r) op s)
                  = fst (op_producer remote live op (provider s)))"
      using live [OF t] fields miss by (intro exI [of _ "?live (PStr tk)"]) simp
  qed
  show ?thesis
    using none some str by blast
qed

theorem credential_record_acceptance_witness:
  "record_without_token_uri Token = Some (PStr ''ya29.token'')
   \<and> record_without_token_uri Token_uri = None
   \<and> record_without_token_uri Refresh_token = Some (PStr ''1//refresh'')
   \<and> dict_to_credentials record_without_token_uri = Inr live_without_token_uri
   \<and> fst (handle whole_credentials ok_remote 0 (Record record_without_token_uri)
            (GetTables ''p'' ''d'') empty_state) = Inr 7
   \<and> calls (provider (snd (handle whole_credentials ok_remote 0 (Record record_without_token_uri)
               (GetTables ''p'' ''d'') empty_state)))
       = [ListTables live_without_token_uri ''p'' ''d'']
   \<and> handle whole_credentials ok_remote 0 (Record example_record) (GetTables ''p'' ''d'')
         empty_state
       = invoke (op_key whole_credentials example_live (GetTables ''p'' ''d'')) cache_timeout 0
           (op_producer ok_remote example_live (GetTables ''p'' ''d'')) empty_state
   \<and> handle whole_credentials ok_remote 0 (Record Map.empty) (GetTables ''p'' ''d'') empty_state
       = (Inl TypeError, empty_state)"
proof -
  have a: "record_without_token_uri Token = Some (PStr ''ya29.token'')"
    by (simp add: record_without_token_uri_def)
  have b: "record_without_token_uri Token_uri = None"
    by (simp add: record_without_token_uri_def)
  have c: "record_without_token_uri Refresh_token = Some (PStr ''1//refresh'')"
    by (simp add: record_without_token_uri_def)
  have d: "example_record Token \<noteq> None"
    by (simp add: example_record_def)
  note th = credential_record_acceptance [where fp = whole_credentials and remote = ok_remote
      and now = 0 and op = "GetTables ''p'' ''d''" and s = empty_state]
  from th [of record_without_token_uri "''ya29.token''" "PStr ''1//refresh''"] a b c
  have "fst (handle whole_credentials ok_remote 0 (Record record_without_token_uri)
            (GetTables ''p'' ''d'') empty_state) = Inr 7
        \<and> calls (provider (snd (handle whole_credentials ok_remote 0
               (Record record_without_token_uri) (GetTables ''p'' ''d'') empty_state)))
       = [ListTables live_without_token_uri ''p'' ''d'']"
    by (auto simp: record_without_token_uri_live empty_state_def lookup_fresh_def
          get_tables_inner_def call_remote_def ok_remote_def)
  moreover from th [of example_record] d
  have "handle whole_credentials ok_remote 0 (Record example_record) (GetTables ''p'' ''d'')
          empty_state
        = invoke (op_key whole_credentials example_live (GetTables ''p'' ''d'')) cache_timeout 0
            (op_producer ok_remote example_live (GetTables ''p'' ''d'')) empty_state"
    by (auto simp: example_record_live)
  moreover from th [of Map.empty]
  have "handle whole_credentials ok_remote 0 (Record Map.empty) (GetTables ''p'' ''d'') empty_state
       = (Inl TypeError, empty_state)"
    by simp
  ultimately show ?thesis
    using a b c record_without_token_uri_live by simp
qed

section \<open>Memoization\<close>

text \<open>
  C7: for every operation and key, when the cache has no live entry and the inner
  function fails, the failure is what the caller gets and the store is as it was; at
  any later time the key is still absent, and a second call with the same key runs the
  inner function again, so that two requests have been sent in all.
\<close>

theorem failures_are_not_memoized:
  assumes "normalize ci = Inr c"
    and "lookup_fresh (store s) (op_key fp c op) now = None"
    and "op_producer remote c op (provider s) = (Inl e, p')"
    and "now \<le> now2"
  shows "handle fp remote now ci op s = (Inl e, s\<lparr>provider := p'\<rparr>)
         \<and> store (snd (handle fp remote now ci op s)) = store s
         \<and> lookup_fresh (store (snd (handle fp remote now ci op s))) (op_key fp c op) now2 = None
         \<and> fst (handle fp remote now2 ci op (snd (handle fp remote now ci op s)))
             = fst (op_producer remote c op p')
         \<and> calls (provider (snd (handle fp remote now2 ci op (snd (handle fp remote now ci op s)))))
             = calls (provider s) @ [op_request c op, op_request c op]"
proof -
  let ?s1 = "s\<lparr>provider := p'\<rparr>"
  have first: "handle fp remote now ci op s = (Inl e, ?s1)"
    using assms(1-3) by (simp add: handle_invoke invoke_miss_fail)
  have later: "lookup_fresh (store ?s1) (op_key fp c op) now2 = None"
    using lookup_fresh_later [OF assms(2,4)] by simp
  have second: "handle fp remote now2 ci op ?s1
                  = invoke (op_key fp c op) cache_timeout now2 (op_producer remote c op) ?s1"
    using assms(1) by (simp add: handle_invoke)
  have res: "fst (handle fp remote now2 ci op ?s1) = fst (op_producer remote c op p')"
    using invoke_miss_fst [OF later] second by simp
  have "provider (snd (handle fp remote now2 ci op ?s1)) = snd (op_producer remote c op p')"
    using invoke_miss_provider [OF later] second by simp
  then have "calls (provider (snd (handle fp remote now2 ci op ?s1)))
               = calls p' @ [op_request c op]"
    by (simp add: op_producer_calls)
  moreover have "calls p' = calls (provider s) @ [op_request c op]"
    using op_producer_calls [of remote c op "provider s"] assms(3) by simp
  ultimately have cnt: "calls (provider (snd (handle fp remote now2 ci op ?s1)))
                          = calls (provider s) @ [op_request c op, op_request c op]"
    by simp
  show ?thesis
    using first later res cnt by simp
qed

theorem failures_are_not_memoized_witness:
  "handle whole_credentials failing_remote 0 (Live example_live) (GetDatasets ''p'') empty_state
     = (Inl (RemoteError ''boom''),
        empty_state\<lparr>provider := \<lparr>calls = [ListDatasets example_live ''p''], world = ()\<rparr>\<rparr>)
   \<and> calls (provider (snd (handle whole_credentials failing_remote 1 (Live example_live)
               (GetDatasets ''p'')
               (snd (handle whole_credentials failing_remote 0 (Live example_live)
                       (GetDatasets ''p'') empty_state)))))
       = [ListDatasets example_live ''p'', ListDatasets example_live ''p'']"
proof -
  have n: "normalize (Live example_live) = Inr example_live"
    by (simp add: normalize_def)
  have p: "op_producer failing_remote example_live (GetDatasets ''p'') (provider empty_state)
             = (Inl (RemoteError ''boom''),
                \<lparr>calls = [ListDatasets example_live ''p''], world = ()\<rparr>)"
    by (simp add: get_datasets_inner_def call_remote_def failing_remote_def empty_state_def)
  have t: "(0::nat) \<le> 1"
    by simp
  note th = failures_are_not_memoized [OF n empty_state_miss p t, of whole_credentials]
  have e: "calls (provider empty_state) = []"
    by (simp add: empty_state_def)
  have a: "handle whole_credentials failing_remote 0 (Live example_live) (GetDatasets ''p'')
             empty_state
           = (Inl (RemoteError ''boom''),
              empty_state\<lparr>provider := \<lparr>calls = [ListDatasets example_live ''p''], world = ()\<rparr>\<rparr>)"
    using th by blast
  have b: "calls (provider (snd (handle whole_credentials failing_remote 1 (Live example_live)
               (GetDatasets ''p'')
               (snd (handle whole_credentials failing_remote 0 (Live example_live)
                       (GetDatasets ''p'') empty_state)))))
           = calls (provider empty_state)
               @ [op_request example_live (GetDatasets ''p''),
                  op_request example_live (GetDatasets ''p'')]"
    using th by blast
  show ?thesis
    using a b e by simp
qed

text \<open>
  C8: for every operation, when the first call finds no live entry and its inner function
  returns \<open>v\<close>, a second call with the same key at a time no later than the first call's
  time plus the TTL of 300 seconds returns \<open>v\<close> as well and sends nothing to the
  provider: after both calls exactly one request has been added.
\<close>

theorem cache_hit_elision:
  assumes "normalize ci = Inr c"
    and "lookup_fresh (store s) (op_key fp c op) now1 = None"
    and "op_producer remote c op (provider s) = (Inr v, p')"
    and "now2 \<le> now1 + cache_timeout"
  shows "fst (handle fp remote now1 ci op s) = Inr v
         \<and> fst (handle fp remote now2 ci op (snd (handle fp remote now1 ci op s))) = Inr v
         \<and> provider (snd (handle fp remote now2 ci op (snd (handle fp remote now1 ci op s)))) = p'
         \<and> calls p' = calls (provider s) @ [op_request c op]"
proof -
  let ?k = "op_key fp c op"
  let ?s1 = "\<lparr>store = (store s)(?k \<mapsto> (v, now1 + cache_timeout)), provider = p'\<rparr>"
  have first: "handle fp remote now1 ci op s = (Inr v, ?s1)"
    using assms(1-3) by (simp add: handle_invoke invoke_miss_ok)
  have hit: "lookup_fresh (store ?s1) ?k now2 = Some v"
    using assms(4) by (simp add: lookup_fresh_def)
  have second: "handle fp remote now2 ci op ?s1 = (Inr v, ?s1)"
    using assms(1) invoke_hit [OF hit] by (simp add: handle_invoke)
  have "calls p' = calls (provider s) @ [op_request c op]"
    using op_producer_calls [of remote c op "provider s"] assms(3) by simp
  then show ?thesis
    using first second by simp
qed

theorem cache_hit_elision_witness:
  "fst (handle whole_credentials ok_remote 0 (Live example_live) (GetDatasets ''p'') empty_state)
     = Inr 7
   \<and> fst (handle whole_credentials ok_remote 1 (Live example_live) (GetDatasets ''p'')
            (snd (handle whole_credentials ok_remote 0 (Live example_live) (GetDatasets ''p'')
                    empty_state)))
       = Inr 7
   \<and> calls (provider (snd (handle whole_credentials ok_remote 1 (Live example_live)
               (GetDatasets ''p'')
               (snd (handle whole_credentials ok_remote 0 (Live example_live)
                       (GetDatasets ''p'') empty_state)))))
       = [ListDatasets example_live ''p'']"
proof -
  have n: "normalize (Live example_live) = Inr example_live"
    by (simp add: normalize_def)
  have p: "op_producer ok_remote example_live (GetDatasets ''p'') (provider empty_state)
             = (Inr 7, \<lparr>calls = [ListDatasets example_live ''p''], world = ()\<rparr>)"
    by (simp add: get_datasets_inner_def call_remote_def ok_remote_def empty_state_def)
  have t: "(1::nat) \<le> 0 + cache_timeout"
    by (simp add: cache_timeout_def)
  from cache_hit_elision [OF n empty_state_miss p t, of whole_credentials]
  show ?thesis
    by simp
qed

section \<open>Errors of the provider\<close>

text \<open>
  C9: for every call of \<open>read_table\<close> and of \<open>get_table_schema\<close> that reaches the provider
  (no live cache entry) and whose remote call fails with the message \<open>m\<close>, the caller
  gets an \<open>Exception\<close> whose message holds the table reference
  \<open>project_id.dataset_id.table_id\<close> and \<open>m\<close>: \<open>Error reading table <ref>: <m>\<close> and
  \<open>Error getting table schema for <ref>: <m>\<close>.
\<close>

theorem remote_errors_are_wrapped:
  assumes "normalize ci = Inr c"
  shows "(lookup_fresh (store s) (op_key fp c (ReadTable p d t loc limit cq)) now = None \<longrightarrow>
          fst (remote (RunQuery c p loc (build_query p d t limit cq)) (world (provider s))) = Inl m \<longrightarrow>
          fst (read_table fp remote now ci p d t loc limit cq s)
            = Inl (Exception (''Error reading table '' @ p @ ''.'' @ d @ ''.'' @ t @ '': '' @ m)))
       \<and> (lookup_fresh (store s) (op_key fp c (GetTableSchema p d t loc)) now = None \<longrightarrow>
          fst (remote (GetTable c p loc (p @ ''.'' @ d @ ''.'' @ t)) (world (provider s))) = Inl m \<longrightarrow>
          fst (get_table_schema fp remote now ci p d t loc s)
            = Inl (Exception (''Error getting table schema for '' @ p @ ''.'' @ d @ ''.'' @ t
                               @ '': '' @ m)))"
proof (intro conjI impI)
  assume miss: "lookup_fresh (store s) (op_key fp c (ReadTable p d t loc limit cq)) now = None"
    and fail: "fst (remote (RunQuery c p loc (build_query p d t limit cq)) (world (provider s))) = Inl m"
  have "fst (read_table_inner remote c p d t loc limit cq (provider s))
          = Inl (Exception (''Error reading table '' @ p @ ''.'' @ d @ ''.'' @ t @ '': '' @ m))"
    using fail
    by (auto simp: read_table_inner_def call_remote_def table_ref_def split: prod.splits sum.splits)
  moreover have "read_table fp remote now ci p d t loc limit cq s
                   = invoke (op_key fp c (ReadTable p d t loc limit cq)) cache_timeout now
                       (read_table_inner remote c p d t loc limit cq) s"
    using assms by (simp add: read_table_def)
  ultimately show "fst (read_table fp remote now ci p d t loc limit cq s)
            = Inl (Exception (''Error reading table '' @ p @ ''.'' @ d @ ''.'' @ t @ '': '' @ m))"
    using invoke_miss_fst [OF miss] by simp
next
  assume miss: "lookup_fresh (store s) (op_key fp c (GetTableSchema p d t loc)) now = None"
    and fail: "fst (remote (GetTable c p loc (p @ ''.'' @ d @ ''.'' @ t)) (world (provider s))) = Inl m"
  have "fst (get_table_schema_inner remote c p d t loc (provider s))
          = Inl (Exception (''Error getting table schema for '' @ p @ ''.'' @ d @ ''.'' @ t
                             @ '': '' @ m))"
    using fail
    by (auto simp: get_table_schema_inner_def call_remote_def table_ref_def
          split: prod.splits sum.splits)
  moreover have "get_table_schema fp remote now ci p d t loc s
                   = invoke (op_key fp c (GetTableSchema p d t loc)) cache_timeout now
                       (get_table_schema_inner remote c p d t loc) s"
    using assms by (simp add: get_table_schema_def)
  ultimately show "fst (get_table_schema fp remote now ci p d t loc s)
            = Inl (Exception (''Error getting table schema for '' @ p @ ''.'' @ d @ ''.'' @ t
                               @ '': '' @ m))"
    using invoke_miss_fst [OF miss] by simp
qed

theorem remote_errors_are_wrapped_witness:
  "fst (read_table whole_credentials failing_remote 0 (Live example_live) ''p'' ''d'' ''t'' ''US''
          None None empty_state)
     = Inl (Exception ''Error reading table p.d.t: boom'')
   \<and> fst (get_table_schema whole_credentials failing_remote 0 (Live example_live) ''p'' ''d'' ''t''
            ''US'' empty_state)
     = Inl (Exception ''Error getting table schema for p.d.t: boom'')"
proof -
  have n: "normalize (Live example_live) = Inr example_live"
    by (simp add: normalize_def)
  from remote_errors_are_wrapped [OF n, where fp = whole_credentials and s = empty_state
      and remote = failing_remote and now = 0 and p = "''p''" and d = "''d''" and t = "''t''"
      and loc = "''US''" and limit = None and cq = None and m = "''boom''"]
  show ?thesis
    by (simp add: empty_state_miss failing_remote_def)
qed

end
